theory Spec2Isabelle
  imports Main "HOL-Library.Sublist"
begin

section \<open>JavaScript values that cross the adapter boundary\<close>

text \<open>
  The driver adapter of the guide (classes \<open>MyQueryable\<close>, \<open>MyTransaction\<close>, \<open>MyAdapter\<close>
  and the helpers \<open>mapArg\<close>, \<open>mapRow\<close>, \<open>convertDriverError\<close>) handles values of type
  \<open>unknown\<close>. The datatype below has one constructor for each shape the helpers tell
  apart with \<open>=== null\<close>, \<open>typeof\<close> and \<open>instanceof\<close>. JavaScript numbers are IEEE doubles;
  their type is left as the parameter \<open>'n\<close>, and the library functions producing them
  are parameters of the model (record \<open>js_runtime\<close> below). A \<open>Date\<close> holds a time
  value in milliseconds, or no time value when it is an Invalid Date.
\<close>

datatype 'n jsvalue =
    JNull
  | JUndefined
  | JBool bool
  | JNum 'n
  | JBigInt int
  | JStr string
  | JDate "int option"
  | JBuffer "nat list"
  | JArray "'n jsvalue list"
  | JObject "(string \<times> 'n jsvalue) list"

text \<open>
  What a \<open>catch (e)\<close> can receive: an instance of \<open>Error\<close>, read by the code through the
  cast \<open>Error & { code?: string; errno?: number }\<close>, or any other thrown value.
\<close>

record native_error =
  name :: string
  message :: string
  code :: "string option"
  errno :: "int option"

datatype 'n thrown = IsError native_error | NotError "'n jsvalue"

section \<open>MappedError and convertDriverError\<close>

datatype MappedError =
    UniqueConstraintViolation
  | NullConstraintViolation
  | ForeignKeyConstraintViolation
  | TableDoesNotExist
  | InvalidIsolationLevel string
  | Sqlite int string
  | Postgres string string string "string option" "string option" "string option"
  | GenericJs int

text \<open>
  \<open>Sqlite extendedCode message\<close> is \<open>{ kind: "sqlite", extendedCode, message }\<close>;
  \<open>Postgres code severity message detail column hint\<close> is the \<open>kind: "postgres"\<close> object.
  \<open>if (dbError.code)\<close> tests truthiness: an absent code and the empty string are falsy.
\<close>

fun convertDriverError :: "'n thrown \<Rightarrow> MappedError" where
  "convertDriverError (IsError dbError) =
     (if code dbError = Some ''23505'' then UniqueConstraintViolation
      else if code dbError = Some ''23502'' then NullConstraintViolation
      else if code dbError = Some ''23503'' then ForeignKeyConstraintViolation
      else if code dbError = Some ''42P01'' then TableDoesNotExist
      else if name dbError = ''SQLiteError'' then
        Sqlite (case errno dbError of None \<Rightarrow> 1 | Some n \<Rightarrow> n) (message dbError)
      else if code dbError \<noteq> None \<and> code dbError \<noteq> Some '''' then
        Postgres (the (code dbError)) ''ERROR'' (message dbError) None None None
      else GenericJs 0)"
| "convertDriverError (NotError v) = GenericJs 0"

datatype DriverAdapterError = DriverAdapterError MappedError

text \<open>\<open>onError\<close> of \<open>MyQueryable\<close>: the value it throws.\<close>

definition onError :: "'n thrown \<Rightarrow> DriverAdapterError" where
  "onError e = DriverAdapterError (convertDriverError e)"

section \<open>The native client\<close>

text \<open>
  The adapter reaches the native connection only through \<open>this.client.query(sql, args)\<close>
  and \<open>this.client.close()\<close>. The client is modelled by the list of calls it has received,
  oldest first. What the native driver answers is a parameter: a function of the calls
  received so far and of the new call, returning the value it throws or its result.
\<close>

datatype 'n client_call = Query string "'n jsvalue list option" | Close

record 'n query_result =
  resultRows :: "'n jsvalue list list"
  resultColumnNames :: "string list"
  resultColumnTypes :: "nat list"
  affectedRows :: "int option"

type_synonym 'n driver = "'n client_call list \<Rightarrow> 'n client_call \<Rightarrow> 'n thrown + 'n query_result"

text \<open>
  The state of one \<open>MyAdapter\<close> object: the client it owns (shared by reference with every
  transaction it creates) and the private counter \<open>#transactionDepth\<close>. The counter is a
  JavaScript number that only ever changes by one; it is modelled as an unbounded integer.
\<close>

record 'n MyAdapter =
  client :: "'n client_call list"
  transactionDepth :: int

definition new_MyAdapter :: "'n MyAdapter" where
  "new_MyAdapter = \<lparr>client = [], transactionDepth = 0\<rparr>"

definition client_query ::
  "'n driver \<Rightarrow> string \<Rightarrow> 'n jsvalue list option \<Rightarrow> 'n MyAdapter \<Rightarrow> ('n thrown + 'n query_result) \<times> 'n MyAdapter" where
  "client_query drv sql args a =
     (drv (client a) (Query sql args), a\<lparr>client := client a @ [Query sql args]\<rparr>)"

definition client_close :: "'n driver \<Rightarrow> 'n MyAdapter \<Rightarrow> ('n thrown + 'n query_result) \<times> 'n MyAdapter" where
  "client_close drv a = (drv (client a) Close, a\<lparr>client := client a @ [Close]\<rparr>)"

section \<open>Transactions\<close>

record TransactionOptions =
  usePhantomQuery :: bool

text \<open>
  A \<open>MyTransaction\<close> object: its read-only \<open>options\<close> and the private closure \<open>#release\<close>,
  which acts on the state of the adapter that created it.
\<close>

record 'n MyTransaction =
  options :: TransactionOptions
  release :: "'n MyAdapter \<Rightarrow> 'n MyAdapter"

definition commit :: "'n MyTransaction \<Rightarrow> 'n MyAdapter \<Rightarrow> ('n thrown + unit) \<times> 'n MyAdapter" where
  "commit tx a = (Inr (), release tx a)"

definition rollback :: "'n MyTransaction \<Rightarrow> 'n MyAdapter \<Rightarrow> ('n thrown + unit) \<times> 'n MyAdapter" where
  "rollback tx a = (Inr (), release tx a)"

text \<open>Decimal text of an integer, as a template literal and \<open>BigInt.prototype.toString\<close> give it.\<close>

definition digit_char :: "nat \<Rightarrow> char" where
  "digit_char d = ''0123456789'' ! d"

fun nat_toString :: "nat \<Rightarrow> string" where
  "nat_toString n = (if n < 10 then [digit_char n] else nat_toString (n div 10) @ [digit_char (n mod 10)])"

declare nat_toString.simps [simp del]

definition int_toString :: "int \<Rightarrow> string" where
  "int_toString i = (if i < 0 then CHR ''-'' # nat_toString (nat (- i)) else nat_toString (nat i))"

definition validLevels :: "string list" where
  "validLevels = [''READ UNCOMMITTED'', ''READ COMMITTED'', ''REPEATABLE READ'', ''SERIALIZABLE'']"

text \<open>
  \<open>startTransaction\<close>. The argument is \<open>None\<close> for \<open>undefined\<close>. \<open>isolationLevel ? ... : "BEGIN"\<close>
  tests truthiness, so the empty string would give a plain \<open>BEGIN\<close>.
\<close>

definition beginSql :: "string option \<Rightarrow> string" where
  "beginSql isolationLevel =
     (case isolationLevel of
        None \<Rightarrow> ''BEGIN''
      | Some l \<Rightarrow> if l \<noteq> [] then ''BEGIN ISOLATION LEVEL '' @ l else ''BEGIN'')"

text \<open>The statement sent when the depth, already incremented, is \<open>depth\<close>.\<close>

definition startSql :: "string option \<Rightarrow> int \<Rightarrow> string" where
  "startSql isolationLevel depth =
     (if depth = 1 then beginSql isolationLevel else ''SAVEPOINT sp_'' @ int_toString depth)"

definition startTransaction ::
  "'n driver \<Rightarrow> string option \<Rightarrow> 'n MyAdapter \<Rightarrow> (DriverAdapterError + 'n MyTransaction) \<times> 'n MyAdapter" where
  "startTransaction drv isolationLevel a =
     (if isolationLevel \<noteq> None \<and> the isolationLevel \<notin> set validLevels then
        (Inl (DriverAdapterError (InvalidIsolationLevel (the isolationLevel))), a)
      else
        let opts = \<lparr>usePhantomQuery = False\<rparr>;
            a1 = a\<lparr>transactionDepth := transactionDepth a + 1\<rparr>;
            depth = transactionDepth a1;
            sql = startSql isolationLevel depth
        in case client_query drv sql None a1 of
             (Inl e, a2) \<Rightarrow> (Inl (onError e), a2\<lparr>transactionDepth := transactionDepth a2 - 1\<rparr>)
           | (Inr r, a2) \<Rightarrow>
               (Inr \<lparr>options = opts,
                     release = (\<lambda>s. s\<lparr>transactionDepth := transactionDepth s - 1\<rparr>)\<rparr>, a2))"

definition dispose :: "'n driver \<Rightarrow> 'n MyAdapter \<Rightarrow> ('n thrown + unit) \<times> 'n MyAdapter" where
  \<comment> \<open>\<open>await this.client.close()\<close>, outside any \<open>try\<close>: a failure of \<open>close\<close> is rethrown as it is.\<close>
  "dispose drv a =
     (case client_close drv a of
        (Inl e, a') \<Rightarrow> (Inl e, a')
      | (Inr r, a') \<Rightarrow> (Inr (), a'))"

text \<open>Callers of the lifecycle hooks: a terminal call is \<open>commit()\<close> or \<open>rollback()\<close>.\<close>

datatype hook = Commit | Rollback

fun terminal :: "hook \<Rightarrow> 'n MyTransaction \<Rightarrow> 'n MyAdapter \<Rightarrow> ('n thrown + unit) \<times> 'n MyAdapter" where
  "terminal Commit tx a = commit tx a"
| "terminal Rollback tx a = rollback tx a"

fun run_terminals :: "(hook \<times> 'n MyTransaction) list \<Rightarrow> 'n MyAdapter \<Rightarrow> 'n MyAdapter" where
  "run_terminals [] a = a"
| "run_terminals ((h, tx) # rest) a = run_terminals rest (snd (terminal h tx a))"

text \<open>
  A caller starting transactions one inside the other, one isolation level per call; it
  stops at the first call that throws. The transactions come back oldest first.
\<close>

fun start_nested ::
  "'n driver \<Rightarrow> string option list \<Rightarrow> 'n MyAdapter \<Rightarrow> (DriverAdapterError + 'n MyTransaction list) \<times> 'n MyAdapter" where
  "start_nested drv [] a = (Inr [], a)"
| "start_nested drv (l # ls) a =
     (case startTransaction drv l a of
        (Inl e, a') \<Rightarrow> (Inl e, a')
      | (Inr tx, a') \<Rightarrow>
          (case start_nested drv ls a' of
             (Inl e, a'') \<Rightarrow> (Inl e, a'')
           | (Inr txs, a'') \<Rightarrow> (Inr (tx # txs), a'')))"

text \<open>The statements among a list of client calls whose text starts with a keyword.\<close>

fun is_statement :: "string \<Rightarrow> 'n client_call \<Rightarrow> bool" where
  "is_statement kw (Query sql args) = prefix kw sql"
| "is_statement kw Close = False"

section \<open>Value mappers\<close>

datatype ArgScalarType =
    ScalarString | ScalarInt | ScalarBigint | ScalarFloat | ScalarDecimal | ScalarBoolean
  | ScalarEnum | ScalarUuid | ScalarJson | ScalarDatetime | ScalarBytes | ScalarUnknown

datatype Arity = ArityScalar | ArityList

record ArgType =
  scalarType :: ArgScalarType
  dbType :: "string option"
  arity :: Arity

record 'n SqlQuery =
  sql :: string
  args :: "'n jsvalue list"
  argTypes :: "ArgType list"

record 'n SqlResultSet =
  columnNames :: "string list"
  columnTypes :: "nat list"
  rows :: "'n jsvalue list list"

text \<open>
  The library functions of the JavaScript runtime that the mappers call. They are not
  part of the repository and are parameters of the model: \<open>Number.parseInt(s, 10)\<close>,
  \<open>Number.parseFloat(s)\<close>, \<open>BigInt(s)\<close> (which throws a \<open>SyntaxError\<close> on text that is not an
  integer literal), \<open>Buffer.from(s, "base64")\<close>, the text \<open>Date.prototype.toISOString\<close>
  gives for a time value, and \<open>JSON.stringify\<close> (which throws a \<open>TypeError\<close> on a value it
  cannot serialise, such as one holding a bigint).
\<close>

record 'n js_runtime =
  parseInt10 :: "string \<Rightarrow> 'n"
  parseFloat :: "string \<Rightarrow> 'n"
  BigInt_of :: "string \<Rightarrow> 'n thrown + int"
  Buffer_from_base64 :: "string \<Rightarrow> nat list"
  isoText :: "int \<Rightarrow> string"
  JSON_stringify :: "'n jsvalue \<Rightarrow> 'n thrown + string"

text \<open>
  \<open>mapArg\<close>. The guide leaves the test \<open>/* SQLite */\<close> of the boolean rule open; it is the
  parameter \<open>isSQLite\<close>.
\<close>

definition mapArg ::
  "('n::{zero,one}) js_runtime \<Rightarrow> bool \<Rightarrow> 'n jsvalue \<Rightarrow> ArgType \<Rightarrow> 'n thrown + 'n jsvalue" where
  "mapArg rt isSQLite arg argType =
     (if arg = JNull \<or> arg = JUndefined then Inr JNull
      else case arg of
        JStr s \<Rightarrow>
          (if scalarType argType = ScalarInt then Inr (JNum (parseInt10 rt s))
           else if scalarType argType = ScalarFloat then Inr (JNum (parseFloat rt s))
           else if scalarType argType = ScalarBigint then
             (case BigInt_of rt s of Inl e \<Rightarrow> Inl e | Inr n \<Rightarrow> Inr (JBigInt n))
           else if scalarType argType = ScalarBytes then Inr (JBuffer (Buffer_from_base64 rt s))
           else Inr arg)
      | JBool b \<Rightarrow> (if isSQLite then Inr (JNum (if b then 1 else 0)) else Inr arg)
      | _ \<Rightarrow> Inr arg)"


text \<open>\<open>xs[i]\<close> in JavaScript: \<open>undefined\<close> (here \<open>None\<close>) out of range.\<close>

definition nth_opt :: "'a list \<Rightarrow> nat \<Rightarrow> 'a option" where
  "nth_opt xs i = (if i < length xs then Some (xs ! i) else None)"

text \<open>
  \<open>query.args.map((arg, i) => mapArg(arg, query.argTypes[i] ?? { scalarType: "unknown", arity: "scalar" }))\<close>,
  from index \<open>i\<close> on: the first \<open>mapArg\<close> that throws ends the whole \<open>map\<close>.
\<close>

definition defaultArgType :: ArgType where
  "defaultArgType = \<lparr>scalarType = ScalarUnknown, dbType = None, arity = ArityScalar\<rparr>"

fun mapArgs_from ::
  "('n::{zero,one}) js_runtime \<Rightarrow> bool \<Rightarrow> ArgType list \<Rightarrow> nat \<Rightarrow> 'n jsvalue list \<Rightarrow> 'n thrown + 'n jsvalue list" where
  "mapArgs_from rt isSQLite tys i [] = Inr []"
| "mapArgs_from rt isSQLite tys i (arg # rest) =
     (case mapArg rt isSQLite arg (case nth_opt tys i of None \<Rightarrow> defaultArgType | Some t \<Rightarrow> t) of
        Inl e \<Rightarrow> Inl e
      | Inr v \<Rightarrow>
          (case mapArgs_from rt isSQLite tys (Suc i) rest of
             Inl e \<Rightarrow> Inl e
           | Inr vs \<Rightarrow> Inr (v # vs)))"

definition mapArgs :: "('n::{zero,one}) js_runtime \<Rightarrow> bool \<Rightarrow> 'n SqlQuery \<Rightarrow> 'n thrown + 'n jsvalue list" where
  "mapArgs rt isSQLite query = mapArgs_from rt isSQLite (argTypes query) 0 (args query)"

text \<open>The codes of \<open>ColumnTypeEnum\<close> that the definitions and examples below name.\<close>

definition ColumnTypeEnum_Int32 :: nat where "ColumnTypeEnum_Int32 = 0"
definition ColumnTypeEnum_Text :: nat where "ColumnTypeEnum_Text = 7"
definition ColumnTypeEnum_DateTime :: nat where "ColumnTypeEnum_DateTime = 10"
definition ColumnTypeEnum_Json :: nat where "ColumnTypeEnum_Json = 11"

text \<open>
  \<open>Date.prototype.toISOString\<close> throws a \<open>RangeError\<close> on a date without a time value.
\<close>

definition Date_toISOString :: "'n js_runtime \<Rightarrow> int option \<Rightarrow> 'n thrown + string" where
  "Date_toISOString rt d =
     (case d of
        None \<Rightarrow> Inl (IsError \<lparr>name = ''RangeError'', message = ''Invalid time value'',
                               code = None, errno = None\<rparr>)
      | Some t \<Rightarrow> Inr (isoText rt t))"

text \<open>\<open>typeof value === "object"\<close>, for a value that is not \<open>null\<close>.\<close>

fun typeof_object :: "'n jsvalue \<Rightarrow> bool" where
  "typeof_object (JDate d) = True"
| "typeof_object (JBuffer b) = True"
| "typeof_object (JArray xs) = True"
| "typeof_object (JObject kvs) = True"
| "typeof_object v = False"

text \<open>
  The body of the loop of \<open>mapRow\<close> for one index: the value it pushes, or what it throws.
  The first argument is \<open>row[i]\<close>, the second \<open>columnTypes[i]\<close>.
\<close>

definition mapRow_body :: "'n js_runtime \<Rightarrow> 'n jsvalue \<Rightarrow> nat option \<Rightarrow> 'n thrown + 'n jsvalue" where
  "mapRow_body rt cell colType =
     (let v = (if cell = JUndefined then JNull else cell) in
      if v = JNull then Inr JNull
      else case v of
        JBigInt n \<Rightarrow> Inr (JStr (int_toString n))
      | JDate d \<Rightarrow> (case Date_toISOString rt d of Inl e \<Rightarrow> Inl e | Inr s \<Rightarrow> Inr (JStr s))
      | _ \<Rightarrow>
          (if colType = Some ColumnTypeEnum_Json \<and> typeof_object v then
             (case JSON_stringify rt v of Inl e \<Rightarrow> Inl e | Inr s \<Rightarrow> Inr (JStr s))
           else Inr v))"

function mapRow_loop ::
  "'n js_runtime \<Rightarrow> 'n jsvalue list \<Rightarrow> nat list \<Rightarrow> nat \<Rightarrow> 'n jsvalue list \<Rightarrow> 'n thrown + 'n jsvalue list" where
  "mapRow_loop rt row cts i result =
     (if i < length row then
        (case mapRow_body rt (row ! i) (nth_opt cts i) of
           Inl e \<Rightarrow> Inl e
         | Inr v \<Rightarrow> mapRow_loop rt row cts (i + 1) (result @ [v]))
      else Inr result)"
  by pat_completeness auto
termination
  by (relation "measure (\<lambda>(rt, row, cts, i, result). length row - i)") auto

declare mapRow_loop.simps [simp del]

definition mapRow :: "'n js_runtime \<Rightarrow> 'n jsvalue list \<Rightarrow> nat list \<Rightarrow> 'n thrown + 'n jsvalue list" where
  "mapRow rt row cts = mapRow_loop rt row cts 0 []"

text \<open>\<open>result.map(row => mapRow(row, columnTypes))\<close>.\<close>

fun mapRows :: "'n js_runtime \<Rightarrow> nat list \<Rightarrow> 'n jsvalue list list \<Rightarrow> 'n thrown + 'n jsvalue list list" where
  "mapRows rt cts [] = Inr []"
| "mapRows rt cts (row # rest) =
     (case mapRow rt row cts of
        Inl e \<Rightarrow> Inl e
      | Inr r \<Rightarrow> (case mapRows rt cts rest of Inl e \<Rightarrow> Inl e | Inr rs \<Rightarrow> Inr (r # rs)))"

section \<open>queryRaw and executeRaw\<close>

text \<open>
  Both run inside \<open>try { ... } catch (e) { this.onError(e) }\<close>. The column names and types,
  which the guide says to get from the result, are fields of the driver's result.
\<close>

definition queryRaw ::
  "('n::{zero,one}) js_runtime \<Rightarrow> bool \<Rightarrow> 'n driver \<Rightarrow> 'n SqlQuery \<Rightarrow> 'n MyAdapter
     \<Rightarrow> (DriverAdapterError + 'n SqlResultSet) \<times> 'n MyAdapter" where
  "queryRaw rt isSQLite drv query a =
     (case mapArgs rt isSQLite query of
        Inl e \<Rightarrow> (Inl (onError e), a)
      | Inr mapped \<Rightarrow>
          (case client_query drv (sql query) (Some mapped) a of
             (Inl e, a') \<Rightarrow> (Inl (onError e), a')
           | (Inr r, a') \<Rightarrow>
               (case mapRows rt (resultColumnTypes r) (resultRows r) of
                  Inl e \<Rightarrow> (Inl (onError e), a')
                | Inr rs \<Rightarrow>
                    (Inr \<lparr>columnNames = resultColumnNames r,
                          columnTypes = resultColumnTypes r, rows = rs\<rparr>, a'))))"

definition executeRaw ::
  "('n::{zero,one}) js_runtime \<Rightarrow> bool \<Rightarrow> 'n driver \<Rightarrow> 'n SqlQuery \<Rightarrow> 'n MyAdapter
     \<Rightarrow> (DriverAdapterError + int) \<times> 'n MyAdapter" where
  "executeRaw rt isSQLite drv query a =
     (case mapArgs rt isSQLite query of
        Inl e \<Rightarrow> (Inl (onError e), a)
      | Inr mapped \<Rightarrow>
          (case client_query drv (sql query) (Some mapped) a of
             (Inl e, a') \<Rightarrow> (Inl (onError e), a')
           | (Inr r, a') \<Rightarrow> (Inr (case affectedRows r of None \<Rightarrow> 0 | Some k \<Rightarrow> k), a')))"

section \<open>The objects behind the interface\<close>






section \<open>Notions used in the statements\<close>

text \<open>
  The number a decimal text denotes, to say that the text of a bigint loses nothing.
\<close>

definition digit_value :: "char \<Rightarrow> nat" where
  "digit_value c = of_char c - 48"

definition nat_of_decimal :: "string \<Rightarrow> nat" where
  "nat_of_decimal s = foldl (\<lambda>acc c. 10 * acc + digit_value c) 0 s"

definition int_of_decimal :: "string \<Rightarrow> int" where
  "int_of_decimal s =
     (if s \<noteq> [] \<and> hd s = CHR ''-'' then - int (nat_of_decimal (tl s)) else int (nat_of_decimal s))"

text \<open>
  The code and kind pairs of the comparisons that open \<open>convertDriverError\<close>, as the
  lookup table they amount to.
\<close>

definition error_table :: "(string \<times> MappedError) list" where
  "error_table =
     [(''23505'', UniqueConstraintViolation), (''23502'', NullConstraintViolation),
      (''23503'', ForeignKeyConstraintViolation), (''42P01'', TableDoesNotExist)]"

section \<open>Sample drivers and a sample runtime\<close>

text \<open>
  Concrete native drivers on which the definitions can be evaluated: one that accepts
  every call, one that throws a given value on every call, and one that accepts calls
  until it has been closed and throws on every call after that.
\<close>

definition empty_result :: "'n query_result" where
  "empty_result = \<lparr>resultRows = [], resultColumnNames = [], resultColumnTypes = [], affectedRows = None\<rparr>"

definition accepting_driver :: "'n driver" where
  "accepting_driver history call = Inr empty_result"

definition throwing_driver :: "'n thrown \<Rightarrow> 'n driver" where
  "throwing_driver e history call = Inl e"

definition connection_closed :: native_error where
  "connection_closed = \<lparr>name = ''Error'', message = ''Connection is closed'', code = None, errno = None\<rparr>"

definition closable_driver :: "'n driver" where
  "closable_driver history call =
     (if Close \<in> set history then Inl (IsError connection_closed) else Inr empty_result)"

text \<open>Sample states, errors and transactions for the examples.\<close>

definition deadlock :: native_error where
  "deadlock = \<lparr>name = ''error'', message = ''deadlock detected'', code = Some ''40P01'', errno = None\<rparr>"

definition begun :: "'n MyAdapter" where
  "begun = \<lparr>client = [Query ''BEGIN'' None], transactionDepth = 1\<rparr>"

definition decrementing :: "'n MyTransaction" where
  "decrementing = \<lparr>options = \<lparr>usePhantomQuery = False\<rparr>,
                    release = (\<lambda>s. s\<lparr>transactionDepth := transactionDepth s - 1\<rparr>)\<rparr>"

definition three_deep :: "'n MyAdapter" where
  "three_deep = \<lparr>client = [Query ''BEGIN ISOLATION LEVEL SERIALIZABLE'' None,
                           Query ''SAVEPOINT sp_2'' None, Query ''SAVEPOINT sp_3'' None],
                 transactionDepth = 3\<rparr>"

text \<open>
  A runtime over integer numbers on which the mappers can be evaluated. It is defined
  only as far as the examples go: \<open>BigInt\<close> accepts plain digit sequences, the ISO text
  is tabulated at the epoch and \<open>JSON.stringify\<close> at the empty object and array.
\<close>

definition syntax_error :: native_error where
  "syntax_error = \<lparr>name = ''SyntaxError'', message = ''Cannot convert to a BigInt'',
                    code = None, errno = None\<rparr>"

definition type_error :: native_error where
  "type_error = \<lparr>name = ''TypeError'', message = ''Do not know how to serialize a BigInt'',
                  code = None, errno = None\<rparr>"

definition sample_runtime :: "int js_runtime" where
  "sample_runtime =
     \<lparr>parseInt10 = int_of_decimal,
      parseFloat = int_of_decimal,
      BigInt_of = (\<lambda>s. if s \<noteq> [] \<and> list_all (\<lambda>c. c \<in> set ''0123456789'') s
                        then Inr (int_of_decimal s) else Inl (IsError syntax_error)),
      Buffer_from_base64 = (\<lambda>s. if s = ''AQID'' then [1, 2, 3] else []),
      isoText = (\<lambda>t. if t = 0 then ''1970-01-01T00:00:00.000Z'' else []),
      JSON_stringify = (\<lambda>v. if v = JObject [] then Inr ''{}''
                             else if v = JArray [] then Inr ''[]''
                             else Inl (IsError type_error))\<rparr>"

definition sqlite_locked :: native_error where
  "sqlite_locked = \<lparr>name = ''SQLiteError'', message = ''database is locked'',
                     code = None, errno = None\<rparr>"

definition sqlite_busy :: native_error where
  "sqlite_busy = \<lparr>name = ''SQLiteError'', message = ''database is locked'',
                   code = Some ''SQLITE_BUSY'', errno = None\<rparr>"

definition unique_violation :: native_error where
  "unique_violation = \<lparr>name = ''error'', message = ''duplicate key value violates unique constraint'',
                        code = Some ''23505'', errno = None\<rparr>"

definition sqlite_constraint :: native_error where
  "sqlite_constraint = \<lparr>name = ''SQLiteError'', message = ''UNIQUE constraint failed: users.name'',
                         code = Some ''SQLITE_CONSTRAINT_UNIQUE'', errno = Some 2067\<rparr>"

definition plain_error :: native_error where
  "plain_error = \<lparr>name = ''Error'', message = ''socket hang up'', code = None, errno = None\<rparr>"

definition delete_users :: "'n SqlQuery" where
  "delete_users = \<lparr>sql = ''DELETE FROM users'', args = [], argTypes = []\<rparr>"

definition sample_row :: "int jsvalue list" where
  "sample_row = [JNull, JBigInt 9007199254740993, JDate (Some 0), JObject [], JNum 42, JStr ''Alice'']"

definition sample_columnTypes :: "nat list" where
  "sample_columnTypes = [0, 1, ColumnTypeEnum_DateTime, ColumnTypeEnum_Json, ColumnTypeEnum_Int32,
                         ColumnTypeEnum_Text]"

definition disposed :: "'n MyAdapter" where
  "disposed = \<lparr>client = [Close], transactionDepth = 0\<rparr>"


section \<open>Properties of startTransaction\<close>

text \<open>
  The two ways through \<open>startTransaction\<close>: an isolation level outside \<open>validLevels\<close> is
  refused before anything else happens; otherwise exactly one statement is sent and the
  outcome follows the driver's answer to it.
\<close>

lemma startTransaction_rejected:
  "level \<notin> set validLevels \<Longrightarrow>
   startTransaction drv (Some level) a = (Inl (DriverAdapterError (InvalidIsolationLevel level)), a)"
  by (simp add: startTransaction_def)

lemma startTransaction_sent:
  assumes "case isolationLevel of None \<Rightarrow> True | Some l \<Rightarrow> l \<in> set validLevels"
  shows "startTransaction drv isolationLevel a =
    (case drv (client a) (Query (startSql isolationLevel (transactionDepth a + 1)) None) of
       Inl e \<Rightarrow> (Inl (DriverAdapterError (convertDriverError e)),
                  a\<lparr>client := client a @ [Query (startSql isolationLevel (transactionDepth a + 1)) None]\<rparr>)
     | Inr r \<Rightarrow> (Inr \<lparr>options = \<lparr>usePhantomQuery = False\<rparr>,
                      release = (\<lambda>s. s\<lparr>transactionDepth := transactionDepth s - 1\<rparr>)\<rparr>,
                  a\<lparr>client := client a @ [Query (startSql isolationLevel (transactionDepth a + 1)) None],
                    transactionDepth := transactionDepth a + 1\<rparr>))"
  using assms
  by (cases isolationLevel) (auto simp: startTransaction_def client_query_def onError_def Let_def split: sum.splits)

lemma startTransaction_Inr:
  assumes "startTransaction drv isolationLevel a = (Inr tx, a')"
  shows "tx = \<lparr>options = \<lparr>usePhantomQuery = False\<rparr>,
                release = (\<lambda>s. s\<lparr>transactionDepth := transactionDepth s - 1\<rparr>)\<rparr>
       \<and> a' = a\<lparr>client := client a @ [Query (startSql isolationLevel (transactionDepth a + 1)) None],
                transactionDepth := transactionDepth a + 1\<rparr>"
proof (cases "case isolationLevel of None \<Rightarrow> True | Some l \<Rightarrow> l \<in> set validLevels")
  case True
  from assms startTransaction_sent[OF True, of drv a] show ?thesis
    by (auto split: sum.splits)
next
  case False
  then obtain level where "isolationLevel = Some level" "level \<notin> set validLevels"
    by (cases isolationLevel) auto
  with assms show ?thesis by (simp add: startTransaction_rejected)
qed

lemma startTransaction_Inl:
  assumes "startTransaction drv isolationLevel a = (Inl err, a')"
  shows "transactionDepth a' = transactionDepth a"
proof (cases "case isolationLevel of None \<Rightarrow> True | Some l \<Rightarrow> l \<in> set validLevels")
  case True
  from assms startTransaction_sent[OF True, of drv a] show ?thesis
    by (auto split: sum.splits)
next
  case False
  then obtain level where "isolationLevel = Some level" "level \<notin> set validLevels"
    by (cases isolationLevel) auto
  with assms show ?thesis by (simp add: startTransaction_rejected)
qed

text \<open>
  Claim C4. An isolation level outside the allow-list makes \<open>startTransaction\<close> throw
  \<open>DriverAdapterError\<close> with \<open>{ kind: "InvalidIsolationLevel", level }\<close> for that level; the
  depth counter keeps its value and the native client receives no call.
\<close>

theorem invalid_isolation_level_rejected:
  assumes "level \<notin> set validLevels"
  shows "fst (startTransaction drv (Some level) a) = Inl (DriverAdapterError (InvalidIsolationLevel level))
       \<and> transactionDepth (snd (startTransaction drv (Some level) a)) = transactionDepth a
       \<and> client (snd (startTransaction drv (Some level) a)) = client a"
  by (simp add: startTransaction_rejected[OF assms])

theorem invalid_isolation_level_rejected_witness:
  "''SNAPSHOT'' \<notin> set validLevels
   \<and> fst (startTransaction (accepting_driver :: int driver) (Some ''SNAPSHOT'') new_MyAdapter)
       = Inl (DriverAdapterError (InvalidIsolationLevel ''SNAPSHOT''))
   \<and> transactionDepth (snd (startTransaction (accepting_driver :: int driver) (Some ''SNAPSHOT'') new_MyAdapter)) = 0
   \<and> client (snd (startTransaction (accepting_driver :: int driver) (Some ''SNAPSHOT'') new_MyAdapter)) = []"
proof -
  have h: "''SNAPSHOT'' \<notin> set validLevels" by (simp add: validLevels_def)
  show ?thesis
    using h invalid_isolation_level_rejected[OF h, of "accepting_driver :: int driver" new_MyAdapter]
    by (simp add: new_MyAdapter_def)
qed

text \<open>
  Claim C3. When the isolation level is absent or allowed and the native driver throws
  \<open>e\<close> on the \<open>BEGIN\<close> or \<open>SAVEPOINT\<close> statement, \<open>startTransaction\<close> throws the
  \<open>DriverAdapterError\<close> of the mapped \<open>e\<close> in a state whose depth counter is back at the
  value it had before the call; the statement is the only call the client received.
  More generally, whenever \<open>startTransaction\<close> throws, the depth counter has the value it
  had before the call.
\<close>

theorem failed_start_restores_depth:
  assumes "case isolationLevel of None \<Rightarrow> True | Some l \<Rightarrow> l \<in> set validLevels"
    and "drv (client a) (Query (startSql isolationLevel (transactionDepth a + 1)) None) = Inl e"
  shows "fst (startTransaction drv isolationLevel a) = Inl (DriverAdapterError (convertDriverError e))
       \<and> transactionDepth (snd (startTransaction drv isolationLevel a)) = transactionDepth a
       \<and> client (snd (startTransaction drv isolationLevel a))
           = client a @ [Query (startSql isolationLevel (transactionDepth a + 1)) None]
       \<and> (fst (startTransaction drv' lvl b) = Inl err \<longrightarrow>
             transactionDepth (snd (startTransaction drv' lvl b)) = transactionDepth b)"
proof -
  have "fst (startTransaction drv' lvl b) = Inl err \<Longrightarrow>
          transactionDepth (snd (startTransaction drv' lvl b)) = transactionDepth b"
    using startTransaction_Inl[of drv' lvl b err] by (metis prod.collapse)
  then show ?thesis
    using startTransaction_sent[OF assms(1), of drv a] assms(2) by simp
qed

theorem failed_start_restores_depth_witness:
  "(case Some ''SERIALIZABLE'' of None \<Rightarrow> True | Some l \<Rightarrow> l \<in> set validLevels)
   \<and> throwing_driver (IsError deadlock) (client (begun :: int MyAdapter))
        (Query (startSql (Some ''SERIALIZABLE'') (transactionDepth (begun :: int MyAdapter) + 1)) None)
       = Inl (IsError deadlock)
   \<and> fst (startTransaction (throwing_driver (IsError deadlock)) (Some ''SERIALIZABLE'') (begun :: int MyAdapter))
       = Inl (DriverAdapterError (Postgres ''40P01'' ''ERROR'' ''deadlock detected'' None None None))
   \<and> transactionDepth (snd (startTransaction (throwing_driver (IsError deadlock)) (Some ''SERIALIZABLE'')
         (begun :: int MyAdapter))) = 1
   \<and> client (snd (startTransaction (throwing_driver (IsError deadlock)) (Some ''SERIALIZABLE'')
         (begun :: int MyAdapter))) = [Query ''BEGIN'' None, Query ''SAVEPOINT sp_2'' None]"
proof -
  have h1: "case Some ''SERIALIZABLE'' of None \<Rightarrow> True | Some l \<Rightarrow> l \<in> set validLevels"
    by (simp add: validLevels_def)
  have h2: "throwing_driver (IsError deadlock) (client (begun :: int MyAdapter))
        (Query (startSql (Some ''SERIALIZABLE'') (transactionDepth (begun :: int MyAdapter) + 1)) None)
       = Inl (IsError deadlock)"
    by (simp add: throwing_driver_def)
  have s: "startSql (Some ''SERIALIZABLE'') 2 = ''SAVEPOINT sp_2''"
    by (simp add: startSql_def int_toString_def nat_toString.simps digit_char_def)
  show ?thesis
    using h1 h2 failed_start_restores_depth[where isolationLevel = "Some ''SERIALIZABLE''"
        and drv = "throwing_driver (IsError deadlock)" and a = "begun :: int MyAdapter"
        and e = "IsError deadlock" and drv' = "throwing_driver (IsError deadlock)"
        and lvl = "Some ''SERIALIZABLE''" and b = "begun :: int MyAdapter"
        and err = "DriverAdapterError (Postgres ''40P01'' ''ERROR'' ''deadlock detected'' None None None)",
        OF h1 h2]
    by (simp add: begun_def deadlock_def s)
qed

section \<open>Properties of the lifecycle hooks\<close>

lemma release_decrements:
  assumes "startTransaction drv isolationLevel a = (Inr tx, a')"
  shows "release tx s = s\<lparr>transactionDepth := transactionDepth s - 1\<rparr>"
  using startTransaction_Inr[OF assms] by simp

lemma terminal_release: "snd (terminal h tx s) = release tx s \<and> fst (terminal h tx s) = Inr ()"
  by (cases h) (simp_all add: commit_def rollback_def)

lemma run_terminals_same_tx:
  assumes "\<And>s. release tx s = s\<lparr>transactionDepth := transactionDepth s - 1\<rparr>"
  shows "run_terminals (map (\<lambda>h. (h, tx)) hooks) s
         = s\<lparr>transactionDepth := transactionDepth s - int (length hooks)\<rparr>"
proof (induction hooks arbitrary: s)
  case Nil
  show ?case by simp
next
  case (Cons h hooks)
  show ?case by (simp add: terminal_release assms Cons.IH)
qed

text \<open>
  Claim C1. For a transaction returned by \<open>startTransaction\<close>, \<open>commit()\<close> and \<open>rollback()\<close>
  leave the list of calls received by the native client as it was, in whatever state of
  the adapter they are invoked: each of them only runs the release closure and resolves.
\<close>

theorem hooks_issue_no_sql:
  assumes "startTransaction drv isolationLevel a = (Inr tx, a')"
  shows "client (snd (commit tx s)) = client s \<and> client (snd (rollback tx s)) = client s
       \<and> commit tx s = (Inr (), release tx s) \<and> rollback tx s = (Inr (), release tx s)"
  by (simp add: commit_def rollback_def release_decrements[OF assms])

lemma first_start:
  "startTransaction (accepting_driver :: int driver) None new_MyAdapter = (Inr decrementing, begun)"
  by (simp add: startTransaction_def accepting_driver_def new_MyAdapter_def client_query_def
      startSql_def beginSql_def decrementing_def begun_def)

theorem hooks_issue_no_sql_witness:
  "startTransaction (accepting_driver :: int driver) None new_MyAdapter = (Inr decrementing, begun)
   \<and> client (snd (commit decrementing (begun :: int MyAdapter))) = [Query ''BEGIN'' None]
   \<and> client (snd (rollback decrementing (begun :: int MyAdapter))) = [Query ''BEGIN'' None]
   \<and> fst (commit decrementing (begun :: int MyAdapter)) = Inr ()
   \<and> fst (rollback decrementing (begun :: int MyAdapter)) = Inr ()"
proof -
  note t = hooks_issue_no_sql[OF first_start, of "begun :: int MyAdapter"]
  have c: "client (begun :: int MyAdapter) = [Query ''BEGIN'' None]" by (simp add: begun_def)
  from t have "client (snd (commit decrementing (begun :: int MyAdapter))) = client (begun :: int MyAdapter)"
    by blast
  from trans[OF this c]
  have 1: "client (snd (commit decrementing (begun :: int MyAdapter))) = [Query ''BEGIN'' None]" .
  from t have "client (snd (rollback decrementing (begun :: int MyAdapter))) = client (begun :: int MyAdapter)"
    by blast
  from trans[OF this c]
  have 2: "client (snd (rollback decrementing (begun :: int MyAdapter))) = [Query ''BEGIN'' None]" .
  from t have "commit decrementing (begun :: int MyAdapter) = (Inr (), release decrementing begun)"
    by blast
  then have 3: "fst (commit decrementing (begun :: int MyAdapter)) = Inr ()"
    by (simp only: fst_conv)
  from t have "rollback decrementing (begun :: int MyAdapter) = (Inr (), release decrementing begun)"
    by blast
  then have 4: "fst (rollback decrementing (begun :: int MyAdapter)) = Inr ()"
    by (simp only: fst_conv)
  from 1 2 3 4
  show ?thesis using first_start by blast
qed






text \<open>
  Claim C9. The release closure of a transaction returned by \<open>startTransaction\<close> is not
  one-shot: each \<open>commit()\<close> and each \<open>rollback()\<close> lowers the depth counter by one, in
  whatever state it is invoked, so any \<open>k\<close> terminal calls on the same transaction lower
  it by \<open>k\<close>; nothing keeps the counter from going below zero.
\<close>

theorem release_is_not_one_shot:
  assumes "startTransaction drv isolationLevel a = (Inr tx, a')"
  shows "transactionDepth (snd (commit tx s)) = transactionDepth s - 1
       \<and> transactionDepth (snd (rollback tx s)) = transactionDepth s - 1
       \<and> transactionDepth (run_terminals (map (\<lambda>h. (h, tx)) hooks) s)
           = transactionDepth s - int (length hooks)"
  using run_terminals_same_tx[of tx hooks s, OF release_decrements[OF assms]]
  by (simp add: commit_def rollback_def release_decrements[OF assms])


theorem release_is_not_one_shot_witness:
  "startTransaction (accepting_driver :: int driver) None new_MyAdapter = (Inr decrementing, begun)
   \<and> transactionDepth (snd (commit decrementing (begun :: int MyAdapter))) = 0
   \<and> transactionDepth (snd (rollback decrementing (begun :: int MyAdapter))) = 0
   \<and> transactionDepth (run_terminals (map (\<lambda>h. (h, decrementing)) [Commit, Commit, Rollback])
        (begun :: int MyAdapter)) = - 2"
  using first_start
    release_is_not_one_shot[OF first_start, of "begun :: int MyAdapter" "[Commit, Commit, Rollback]"]
  by (simp add: begun_def)

section \<open>Nested transactions\<close>

lemma start_nested_Inr:
  assumes "start_nested drv lvls a = (Inr txs, a')"
  shows "length txs = length lvls
       \<and> transactionDepth a' = transactionDepth a + int (length lvls)
       \<and> client a' = client a @
           map (\<lambda>k. Query (startSql (lvls ! k) (transactionDepth a + int k + 1)) None) [0..<length lvls]
       \<and> (\<forall>tx \<in> set txs. \<forall>s. release tx s = s\<lparr>transactionDepth := transactionDepth s - 1\<rparr>)"
  using assms
proof (induction lvls arbitrary: a txs)
  case Nil
  then show ?case by simp
next
  case (Cons l ls)
  from Cons.prems obtain tx a1 where st: "startTransaction drv l a = (Inr tx, a1)"
    by (auto split: prod.splits sum.splits)
  with Cons.prems obtain rest where r: "start_nested drv ls a1 = (Inr rest, a')" and txs: "txs = tx # rest"
    by (auto split: prod.splits sum.splits)
  note ih = Cons.IH[OF r]
  from startTransaction_Inr[OF st]
  have a1: "transactionDepth a1 = transactionDepth a + 1"
     "client a1 = client a @ [Query (startSql l (transactionDepth a + 1)) None]" by simp_all
  have m: "map (\<lambda>k. Query (startSql ((l # ls) ! k) (transactionDepth a + int k + 1)) None) [0..<length (l # ls)]
     = Query (startSql l (transactionDepth a + 1)) None #
       map (\<lambda>k. Query (startSql (ls ! k) (transactionDepth a1 + int k + 1)) None) [0..<length ls]"
    by (simp only: length_Cons map_upt_Suc) (simp add: a1 algebra_simps)
  from ih have "client a' = client a1 @
      map (\<lambda>k. Query (startSql (ls ! k) (transactionDepth a1 + int k + 1)) None) [0..<length ls]"
    by blast
  then have c: "client a' = client a @
      map (\<lambda>k. Query (startSql ((l # ls) ! k) (transactionDepth a + int k + 1)) None) [0..<length (l # ls)]"
    by (simp only: m a1(2) append_assoc append_Cons append_Nil)
  from ih have d: "transactionDepth a' = transactionDepth a + int (length (l # ls))"
    by (simp add: a1)
  from ih have n: "length txs = length (l # ls)" by (simp add: txs)
  from ih release_decrements[OF st]
  have r: "\<forall>tx \<in> set txs. \<forall>s. release tx s = s\<lparr>transactionDepth := transactionDepth s - 1\<rparr>"
    by (simp add: txs)
  from n d c r show ?case by blast
qed


lemma run_terminals_release:
  assumes "\<forall>tx \<in> set txs. \<forall>s. release tx s = s\<lparr>transactionDepth := transactionDepth s - 1\<rparr>"
    and "length hooks = length txs"
  shows "run_terminals (zip hooks txs) s = s\<lparr>transactionDepth := transactionDepth s - int (length txs)\<rparr>"
  using assms
proof (induction txs arbitrary: hooks s)
  case Nil
  then show ?case by simp
next
  case (Cons tx txs)
  then obtain h hs where hooks: "hooks = h # hs" by (cases hooks) auto
  with Cons.prems have "length hs = length txs" by simp
  with Cons show ?case by (simp add: hooks terminal_release)
qed

lemma beginSql_prefix: "prefix ''BEGIN'' (beginSql l) \<and> \<not> prefix ''SAVEPOINT'' (beginSql l)"
  by (cases l) (auto simp: beginSql_def)

lemma nested_statements:
  assumes "lvls \<noteq> []"
  shows "map (\<lambda>k. Query (startSql (lvls ! k) (0 + int k + 1)) None) [0..<length lvls]
       = Query (beginSql (hd lvls)) None #
           map (\<lambda>k. (Query (''SAVEPOINT sp_'' @ int_toString (int k)) None :: 'n client_call))
             [2..<Suc (length lvls)]"
proof -
  from assms obtain l ls where lvls: "lvls = l # ls" by (cases lvls) auto
  have up: "[2..<Suc (Suc (length ls))] = map (\<lambda>i. i + 2) [0..<length ls]"
    by (simp only: map_add_upt) (simp del: upt_Suc)
  show ?thesis
    by (simp only: lvls length_Cons map_upt_Suc up) (simp add: startSql_def comp_def)
qed

text \<open>
  Claim C2. On an adapter whose depth counter is 0, \<open>N \<ge> 1\<close> calls of \<open>startTransaction\<close>
  that all succeed, followed by \<open>N\<close> terminal calls (each \<open>commit\<close> or \<open>rollback\<close>) on the
  transactions in the reverse order of their creation, leave the depth counter at 0. The
  native client received from the starts exactly one \<open>BEGIN\<close> statement (with the
  isolation clause of the first call, if any) followed by \<open>SAVEPOINT sp_k\<close> for the
  \<open>k\<close>-th call, \<open>k = 2, ..., N\<close>, that is \<open>N - 1\<close> savepoints, and nothing from the hooks.
\<close>

theorem nested_lifo_depth_invariant:
  assumes "transactionDepth a = 0"
    and "start_nested drv lvls a = (Inr txs, a')"
    and "lvls \<noteq> []"
    and "length hooks = length lvls"
  shows "transactionDepth (run_terminals (zip hooks (rev txs)) a') = 0
       \<and> client (run_terminals (zip hooks (rev txs)) a') = client a'
       \<and> client a' = client a @ Query (beginSql (hd lvls)) None #
            map (\<lambda>k. Query (''SAVEPOINT sp_'' @ int_toString (int k)) None) [2..<Suc (length lvls)]
       \<and> length (filter (is_statement ''BEGIN'') (drop (length (client a)) (client a'))) = 1
       \<and> length (filter (is_statement ''SAVEPOINT'') (drop (length (client a)) (client a')))
           = length lvls - 1"
proof -
  note sn = start_nested_Inr[OF assms(2)]
  from sn have len: "length txs = length lvls" by blast
  from sn assms(1) have depth: "transactionDepth a' = int (length lvls)" by simp
  from sn have rel: "\<forall>tx \<in> set (rev txs). \<forall>s. release tx s = s\<lparr>transactionDepth := transactionDepth s - 1\<rparr>"
    by simp
  have fin: "run_terminals (zip hooks (rev txs)) a'
             = a'\<lparr>transactionDepth := transactionDepth a' - int (length (rev txs))\<rparr>"
    by (rule run_terminals_release[OF rel]) (simp add: assms(4) len)
  from sn assms(1) have "client a' = client a @
      map (\<lambda>k. Query (startSql (lvls ! k) (0 + int k + 1)) None) [0..<length lvls]"
    by simp
  then have cl: "client a' = client a @ Query (beginSql (hd lvls)) None #
            map (\<lambda>k. Query (''SAVEPOINT sp_'' @ int_toString (int k)) None) [2..<Suc (length lvls)]"
    by (simp only: nested_statements[OF assms(3)])
  have b: "filter (is_statement ''BEGIN'')
             (map (\<lambda>k. (Query (''SAVEPOINT sp_'' @ int_toString (int k)) None :: 'a client_call))
                [2..<Suc (length lvls)]) = []"
    by (rule filter_False) simp
  have s: "filter (is_statement ''SAVEPOINT'')
             (map (\<lambda>k. (Query (''SAVEPOINT sp_'' @ int_toString (int k)) None :: 'a client_call))
                [2..<Suc (length lvls)])
           = map (\<lambda>k. Query (''SAVEPOINT sp_'' @ int_toString (int k)) None) [2..<Suc (length lvls)]"
    by (rule filter_True) auto
  have d: "drop (length (client a)) (client a') = Query (beginSql (hd lvls)) None #
            map (\<lambda>k. Query (''SAVEPOINT sp_'' @ int_toString (int k)) None) [2..<Suc (length lvls)]"
    by (simp add: cl)
  have nb: "length (filter (is_statement ''BEGIN'') (drop (length (client a)) (client a'))) = 1"
    by (simp only: d filter.simps is_statement.simps beginSql_prefix b if_True) simp
  have "Suc (length lvls) - 2 = length lvls - 1" by arith
  then have ns: "length (filter (is_statement ''SAVEPOINT'') (drop (length (client a)) (client a')))
           = length lvls - 1"
    by (simp only: d filter.simps is_statement.simps beginSql_prefix s if_False length_map length_upt)
  have d0: "transactionDepth (run_terminals (zip hooks (rev txs)) a') = 0"
    by (simp add: fin depth len)
  have c0: "client (run_terminals (zip hooks (rev txs)) a') = client a'"
    by (simp add: fin)
  from d0 c0 cl nb ns show ?thesis by blast
qed


lemma three_starts:
  "start_nested (accepting_driver :: int driver) [Some ''SERIALIZABLE'', None, None] new_MyAdapter
   = (Inr [decrementing, decrementing, decrementing], three_deep)"
  by (simp add: startTransaction_def accepting_driver_def new_MyAdapter_def client_query_def
      startSql_def beginSql_def decrementing_def three_deep_def validLevels_def
      int_toString_def nat_toString.simps digit_char_def)

theorem nested_lifo_depth_invariant_witness:
  "transactionDepth (new_MyAdapter :: int MyAdapter) = 0
   \<and> start_nested (accepting_driver :: int driver) [Some ''SERIALIZABLE'', None, None] new_MyAdapter
       = (Inr [decrementing, decrementing, decrementing], three_deep)
   \<and> [Some ''SERIALIZABLE'', None, None] \<noteq> []
   \<and> length [Commit, Rollback, Commit] = length [Some ''SERIALIZABLE'', None, None]
   \<and> transactionDepth (run_terminals (zip [Commit, Rollback, Commit]
          (rev [decrementing, decrementing, decrementing])) (three_deep :: int MyAdapter)) = 0
   \<and> client (run_terminals (zip [Commit, Rollback, Commit]
          (rev [decrementing, decrementing, decrementing])) (three_deep :: int MyAdapter))
       = [Query ''BEGIN ISOLATION LEVEL SERIALIZABLE'' None,
          Query ''SAVEPOINT sp_2'' None, Query ''SAVEPOINT sp_3'' None]
   \<and> length (filter (is_statement ''BEGIN'') (client (three_deep :: int MyAdapter))) = 1
   \<and> length (filter (is_statement ''SAVEPOINT'') (client (three_deep :: int MyAdapter))) = 2"
proof -
  have h1: "transactionDepth (new_MyAdapter :: int MyAdapter) = 0" by (simp add: new_MyAdapter_def)
  have h3: "[Some ''SERIALIZABLE'', None, None] \<noteq> []" by simp
  have h4: "length [Commit, Rollback, Commit] = length [Some ''SERIALIZABLE'', None, None]" by simp
  note t = nested_lifo_depth_invariant[OF h1 three_starts h3 h4]
  have c: "client (three_deep :: int MyAdapter)
       = [Query ''BEGIN ISOLATION LEVEL SERIALIZABLE'' None,
          Query ''SAVEPOINT sp_2'' None, Query ''SAVEPOINT sp_3'' None]"
    by (simp add: three_deep_def)
  have n: "drop (length (client (new_MyAdapter :: int MyAdapter))) (client (three_deep :: int MyAdapter))
           = client (three_deep :: int MyAdapter)"
    by (simp add: new_MyAdapter_def)
  from t have 1: "transactionDepth (run_terminals (zip [Commit, Rollback, Commit]
          (rev [decrementing, decrementing, decrementing])) (three_deep :: int MyAdapter)) = 0"
    by blast
  from t have "client (run_terminals (zip [Commit, Rollback, Commit]
          (rev [decrementing, decrementing, decrementing])) (three_deep :: int MyAdapter))
       = client (three_deep :: int MyAdapter)"
    by blast
  then have 2: "client (run_terminals (zip [Commit, Rollback, Commit]
          (rev [decrementing, decrementing, decrementing])) (three_deep :: int MyAdapter))
       = [Query ''BEGIN ISOLATION LEVEL SERIALIZABLE'' None,
          Query ''SAVEPOINT sp_2'' None, Query ''SAVEPOINT sp_3'' None]"
    by (simp only: c)
  from t have "length (filter (is_statement ''BEGIN'')
      (drop (length (client (new_MyAdapter :: int MyAdapter))) (client (three_deep :: int MyAdapter)))) = 1"
    by blast
  then have 3: "length (filter (is_statement ''BEGIN'') (client (three_deep :: int MyAdapter))) = 1"
    by (simp only: n)
  from t have "length (filter (is_statement ''SAVEPOINT'')
      (drop (length (client (new_MyAdapter :: int MyAdapter))) (client (three_deep :: int MyAdapter))))
      = length [Some ''SERIALIZABLE'', None, None :: string option] - 1"
    by blast
  then have 4: "length (filter (is_statement ''SAVEPOINT'') (client (three_deep :: int MyAdapter))) = 2"
    by (simp only: n) simp
  from h1 three_starts h3 h4 1 2 3 4 show ?thesis by blast
qed

section \<open>Properties of the error mapper\<close>

text \<open>
  Claim C6, as the code has it. \<open>convertDriverError\<close> returns one \<open>MappedError\<close> for every
  thrown value. For an instance of \<open>Error\<close>: a code in the table gives the kind the table
  names, whatever the name of the error; otherwise an error named \<open>SQLiteError\<close> gives the
  \<open>sqlite\<close> variant with its message and its \<open>errno\<close>, or 1 when it has no \<open>errno\<close>, whether or
  not it has a code; otherwise a non-empty code gives the \<open>postgres\<close> variant with that code
  and the message; otherwise the result is \<open>GenericJs\<close> with id 0. A thrown value that
  is not an \<open>Error\<close> gives \<open>GenericJs\<close> with id 0.
\<close>

theorem convertDriverError_rules:
  "(code e1 = Some c1 \<and> map_of error_table c1 = Some k \<longrightarrow> convertDriverError (IsError e1) = k)
   \<and> (name e2 = ''SQLiteError'' \<and> (\<forall>c. code e2 = Some c \<longrightarrow> map_of error_table c = None) \<longrightarrow>
        convertDriverError (IsError e2)
          = Sqlite (case errno e2 of None \<Rightarrow> 1 | Some n \<Rightarrow> n) (message e2))
   \<and> (name e3 \<noteq> ''SQLiteError'' \<and> code e3 = Some c3 \<and> c3 \<noteq> [] \<and> map_of error_table c3 = None \<longrightarrow>
        convertDriverError (IsError e3) = Postgres c3 ''ERROR'' (message e3) None None None)
   \<and> (name e4 \<noteq> ''SQLiteError'' \<and> (code e4 = None \<or> code e4 = Some []) \<longrightarrow>
        convertDriverError (IsError e4) = GenericJs 0)
   \<and> convertDriverError (NotError v) = GenericJs 0"
  by (auto simp: error_table_def split: if_splits)

theorem convertDriverError_rules_witness:
  "(code unique_violation = Some ''23505'' \<and> map_of error_table ''23505'' = Some UniqueConstraintViolation)
   \<and> convertDriverError (IsError unique_violation :: int thrown) = UniqueConstraintViolation
   \<and> (name sqlite_constraint = ''SQLiteError''
        \<and> code sqlite_constraint = Some ''SQLITE_CONSTRAINT_UNIQUE''
        \<and> map_of error_table ''SQLITE_CONSTRAINT_UNIQUE'' = None)
   \<and> convertDriverError (IsError sqlite_constraint :: int thrown)
        = Sqlite 2067 ''UNIQUE constraint failed: users.name''
   \<and> (name deadlock \<noteq> ''SQLiteError'' \<and> code deadlock = Some ''40P01'' \<and> ''40P01'' \<noteq> []
        \<and> map_of error_table ''40P01'' = None)
   \<and> convertDriverError (IsError deadlock :: int thrown)
        = Postgres ''40P01'' ''ERROR'' ''deadlock detected'' None None None
   \<and> (name plain_error \<noteq> ''SQLiteError'' \<and> code plain_error = None)
   \<and> convertDriverError (IsError plain_error :: int thrown) = GenericJs 0
   \<and> convertDriverError (NotError (JStr ''boom'') :: int thrown) = GenericJs 0"
proof -
  note t = convertDriverError_rules[where ?'a = int and ?e1.0 = unique_violation and ?c1.0 = "''23505''"
      and k = UniqueConstraintViolation and ?e2.0 = sqlite_constraint and ?e3.0 = deadlock
      and ?c3.0 = "''40P01''" and ?e4.0 = plain_error and v = "JStr ''boom''"]
  have h1: "code unique_violation = Some ''23505'' \<and> map_of error_table ''23505'' = Some UniqueConstraintViolation"
    by (simp add: unique_violation_def error_table_def)
  have h2: "name sqlite_constraint = ''SQLiteError''
        \<and> (\<forall>c. code sqlite_constraint = Some c \<longrightarrow> map_of error_table c = None)"
    by (simp add: sqlite_constraint_def error_table_def)
  have h3: "name deadlock \<noteq> ''SQLiteError'' \<and> code deadlock = Some ''40P01'' \<and> ''40P01'' \<noteq> []
        \<and> map_of error_table ''40P01'' = None"
    by (simp add: deadlock_def error_table_def)
  have h4: "name plain_error \<noteq> ''SQLiteError'' \<and> (code plain_error = None \<or> code plain_error = Some [])"
    by (simp add: plain_error_def)
  note r1 = t[THEN conjunct1, THEN mp, OF h1]
  note r2 = t[THEN conjunct2, THEN conjunct1, THEN mp, OF h2]
  note r3 = t[THEN conjunct2, THEN conjunct2, THEN conjunct1, THEN mp, OF h3]
  note r4 = t[THEN conjunct2, THEN conjunct2, THEN conjunct2, THEN conjunct1, THEN mp, OF h4]
  note r5 = t[THEN conjunct2, THEN conjunct2, THEN conjunct2, THEN conjunct2]
  from r2 have r2': "convertDriverError (IsError sqlite_constraint :: int thrown)
        = Sqlite 2067 ''UNIQUE constraint failed: users.name''"
    by (simp add: sqlite_constraint_def)
  from r3 have r3': "convertDriverError (IsError deadlock :: int thrown)
        = Postgres ''40P01'' ''ERROR'' ''deadlock detected'' None None None"
    by (simp add: deadlock_def)
  have h2': "name sqlite_constraint = ''SQLiteError''
        \<and> code sqlite_constraint = Some ''SQLITE_CONSTRAINT_UNIQUE''
        \<and> map_of error_table ''SQLITE_CONSTRAINT_UNIQUE'' = None"
    by (simp add: sqlite_constraint_def error_table_def)
  have h4': "name plain_error \<noteq> ''SQLiteError'' \<and> code plain_error = None"
    by (simp add: plain_error_def)
  from h1 r1 h2' r2' h3 r3' h4' r4 r5 show ?thesis by blast
qed

text \<open>
  The claim as stated fails on \<open>SQLiteError\<close>s. One that carries neither a code nor an
  \<open>errno\<close> does not get the generic fallback but the \<open>sqlite\<close> variant with the code 1; one
  that carries the unmapped code \<open>SQLITE_BUSY\<close> and no \<open>errno\<close> gets the same variant, in
  which that code does not appear.
\<close>

theorem convertDriverError_counterexample:
  "code sqlite_locked = None \<and> errno sqlite_locked = None
   \<and> convertDriverError (IsError sqlite_locked :: int thrown) = Sqlite 1 ''database is locked''
   \<and> convertDriverError (IsError sqlite_locked :: int thrown) \<noteq> GenericJs 0
   \<and> code sqlite_busy = Some ''SQLITE_BUSY'' \<and> map_of error_table ''SQLITE_BUSY'' = None
   \<and> convertDriverError (IsError sqlite_busy :: int thrown) = Sqlite 1 ''database is locked''"
  by (simp add: sqlite_locked_def sqlite_busy_def error_table_def)

section \<open>Properties of the value mappers\<close>






lemma digit_value_char: "d < 10 \<Longrightarrow> digit_value (digit_char d) = d"
proof -
  assume "d < 10"
  then have "d \<in> {0,1,2,3,4,5,6,7,8,9}" by auto
  then show ?thesis by (auto simp: digit_value_def digit_char_def)
qed

lemma nat_of_decimal_toString: "nat_of_decimal (nat_toString n) = n"
proof (induction n rule: nat_toString.induct)
  case (1 n)
  show ?case
  proof (cases "n < 10")
    case True
    then show ?thesis
      by (subst nat_toString.simps) (simp add: nat_of_decimal_def digit_value_char)
  next
    case False
    with 1 have ih: "nat_of_decimal (nat_toString (n div 10)) = n div 10" by simp
    have "nat_of_decimal (nat_toString n)
          = 10 * nat_of_decimal (nat_toString (n div 10)) + digit_value (digit_char (n mod 10))"
      using False by (subst nat_toString.simps) (simp add: nat_of_decimal_def)
    then show ?thesis by (simp add: ih digit_value_char)
  qed
qed

lemma digit_char_not_minus: "d < 10 \<Longrightarrow> digit_char d \<noteq> CHR ''-''"
proof -
  assume "d < 10"
  then have "d \<in> {0,1,2,3,4,5,6,7,8,9}" by auto
  then show ?thesis by (auto simp: digit_char_def)
qed

lemma nat_toString_hd: "nat_toString n \<noteq> [] \<and> hd (nat_toString n) \<noteq> CHR ''-''"
proof (induction n rule: nat_toString.induct)
  case (1 n)
  show ?case
  proof (cases "n < 10")
    case True
    then show ?thesis by (subst (1 2) nat_toString.simps) (simp add: digit_char_not_minus)
  next
    case False
    with 1 have "nat_toString (n div 10) \<noteq> [] \<and> hd (nat_toString (n div 10)) \<noteq> CHR ''-''" by simp
    then show ?thesis using False by (subst (1 2) nat_toString.simps) simp
  qed
qed

lemma int_of_decimal_toString: "int_of_decimal (int_toString i) = i"
  using nat_toString_hd[of "nat i"]
  by (simp add: int_of_decimal_def int_toString_def nat_of_decimal_toString)


lemma mapRow_loop_all_pushed:
  assumes "\<forall>j. i \<le> j \<and> j < length row \<longrightarrow> mapRow_body rt (row ! j) (nth_opt cts j) = Inr (f j)"
  shows "mapRow_loop rt row cts i result = Inr (result @ map f [i..<length row])"
  using assms
proof (induction rt row cts i result rule: mapRow_loop.induct)
  case (1 rt row cts i result)
  show ?case
  proof (cases "i < length row")
    case True
    from "1.prems" True have b: "mapRow_body rt (row ! i) (nth_opt cts i) = Inr (f i)" by simp
    from "1.prems" have "\<forall>j. i + 1 \<le> j \<and> j < length row \<longrightarrow>
        mapRow_body rt (row ! j) (nth_opt cts j) = Inr (f j)" by simp
    from "1.IH"[OF True b this]
    have "mapRow_loop rt row cts (i + 1) (result @ [f i]) = Inr ((result @ [f i]) @ map f [i + 1..<length row])" .
    then show ?thesis
      using True b by (subst mapRow_loop.simps) (simp add: upt_rec[of i])
  next
    case False
    then show ?thesis by (subst mapRow_loop.simps) simp
  qed
qed

lemma mapRow_all_pushed:
  assumes "\<forall>j < length row. mapRow_body rt (row ! j) (nth_opt cts j) = Inr (f j)"
  shows "mapRow rt row cts = Inr (map f [0..<length row])"
  using mapRow_loop_all_pushed[of 0 row rt cts f "[]"] assms by (simp add: mapRow_def)

lemma mapRow_body_null: "mapRow_body rt JNull c = Inr JNull" "mapRow_body rt JUndefined c = Inr JNull"
  by (simp_all add: mapRow_body_def)

lemma mapRow_body_bigint: "mapRow_body rt (JBigInt n) c = Inr (JStr (int_toString n))"
  by (simp add: mapRow_body_def)

lemma mapRow_body_date: "mapRow_body rt (JDate (Some t)) c = Inr (JStr (isoText rt t))"
  by (simp add: mapRow_body_def Date_toISOString_def)

lemma mapRow_body_json:
  assumes "c = Some ColumnTypeEnum_Json" and "typeof_object v" and "\<forall>d. v \<noteq> JDate d"
    and "JSON_stringify rt v = Inr s"
  shows "mapRow_body rt v c = Inr (JStr s)"
  using assms by (cases v) (auto simp: mapRow_body_def)

lemma mapRow_body_other:
  assumes "v \<noteq> JNull" and "v \<noteq> JUndefined" and "\<forall>n. v \<noteq> JBigInt n" and "\<forall>d. v \<noteq> JDate d"
    and "\<not> (c = Some ColumnTypeEnum_Json \<and> typeof_object v)"
  shows "mapRow_body rt v c = Inr v"
  using assms by (cases v) (auto simp: mapRow_body_def)

lemma mapRow_body_total:
  assumes "v \<noteq> JDate None"
    and "c = Some ColumnTypeEnum_Json \<and> typeof_object v \<and> (\<forall>d. v \<noteq> JDate d)
           \<longrightarrow> (\<exists>s. JSON_stringify rt v = Inr s)"
  shows "\<exists>w. mapRow_body rt v c = Inr w"
proof (cases "c = Some ColumnTypeEnum_Json \<and> typeof_object v \<and> (\<forall>d. v \<noteq> JDate d)")
  case True
  with assms(2) obtain s where "JSON_stringify rt v = Inr s" by blast
  with True show ?thesis by (auto simp: mapRow_body_json)
next
  case False
  with assms(1) show ?thesis
    by (cases v) (auto simp: mapRow_body_def Date_toISOString_def split: option.splits)
qed

text \<open>
  Claim C7, as the code has it. On a row that holds no Invalid Date, and whose compound
  objects in JSON-typed columns \<open>JSON.stringify\<close> can serialise, \<open>mapRow\<close> returns a row of
  the same length in which, cell by cell: \<open>null\<close> and \<open>undefined\<close> are \<open>null\<close>; a bigint is its
  decimal text, from which the bigint can be read back; a date with a time value is the
  ISO text of that time value; a value with \<open>typeof "object"\<close> in a column of type \<open>Json\<close>
  is the text \<open>JSON.stringify\<close> gives for it; every other value is itself.
\<close>

theorem mapRow_rules:
  assumes "\<forall>i < length row. row ! i \<noteq> JDate None"
    and "\<forall>i < length row.
           nth_opt cts i = Some ColumnTypeEnum_Json \<and> typeof_object (row ! i) \<and> (\<forall>d. row ! i \<noteq> JDate d)
           \<longrightarrow> (\<exists>s. JSON_stringify rt (row ! i) = Inr s)"
  shows "\<exists>res. mapRow rt row cts = Inr res \<and> length res = length row \<and>
     (\<forall>i < length row.
        (row ! i = JNull \<or> row ! i = JUndefined \<longrightarrow> res ! i = JNull)
      \<and> (\<forall>n. row ! i = JBigInt n \<longrightarrow>
            res ! i = JStr (int_toString n) \<and> int_of_decimal (int_toString n) = n)
      \<and> (\<forall>t. row ! i = JDate (Some t) \<longrightarrow> res ! i = JStr (isoText rt t))
      \<and> (nth_opt cts i = Some ColumnTypeEnum_Json \<and> typeof_object (row ! i) \<and> (\<forall>d. row ! i \<noteq> JDate d)
            \<longrightarrow> (\<exists>s. JSON_stringify rt (row ! i) = Inr s \<and> res ! i = JStr s))
      \<and> (row ! i \<noteq> JNull \<and> row ! i \<noteq> JUndefined \<and> (\<forall>n. row ! i \<noteq> JBigInt n)
           \<and> (\<forall>d. row ! i \<noteq> JDate d)
           \<and> \<not> (nth_opt cts i = Some ColumnTypeEnum_Json \<and> typeof_object (row ! i))
            \<longrightarrow> res ! i = row ! i))"
proof -
  define f where "f j = projr (mapRow_body rt (row ! j) (nth_opt cts j))" for j
  have body: "mapRow_body rt (row ! j) (nth_opt cts j) = Inr (f j)" if "j < length row" for j
  proof -
    from that assms have "\<exists>w. mapRow_body rt (row ! j) (nth_opt cts j) = Inr w"
      by (intro mapRow_body_total) auto
    then show ?thesis by (auto simp: f_def)
  qed
  then have res: "mapRow rt row cts = Inr (map f [0..<length row])"
    by (intro mapRow_all_pushed) simp
  have cell: "(row ! i = JNull \<or> row ! i = JUndefined \<longrightarrow> f i = JNull)
      \<and> (\<forall>n. row ! i = JBigInt n \<longrightarrow>
            f i = JStr (int_toString n) \<and> int_of_decimal (int_toString n) = n)
      \<and> (\<forall>t. row ! i = JDate (Some t) \<longrightarrow> f i = JStr (isoText rt t))
      \<and> (nth_opt cts i = Some ColumnTypeEnum_Json \<and> typeof_object (row ! i) \<and> (\<forall>d. row ! i \<noteq> JDate d)
            \<longrightarrow> (\<exists>s. JSON_stringify rt (row ! i) = Inr s \<and> f i = JStr s))
      \<and> (row ! i \<noteq> JNull \<and> row ! i \<noteq> JUndefined \<and> (\<forall>n. row ! i \<noteq> JBigInt n)
           \<and> (\<forall>d. row ! i \<noteq> JDate d)
           \<and> \<not> (nth_opt cts i = Some ColumnTypeEnum_Json \<and> typeof_object (row ! i))
            \<longrightarrow> f i = row ! i)" if i: "i < length row" for i
  proof -
    note b = body[OF i]
    have 1: "row ! i = JNull \<or> row ! i = JUndefined \<longrightarrow> f i = JNull"
      using b by (auto simp: mapRow_body_null)
    have 2: "\<forall>n. row ! i = JBigInt n \<longrightarrow>
            f i = JStr (int_toString n) \<and> int_of_decimal (int_toString n) = n"
      using b by (auto simp: mapRow_body_bigint int_of_decimal_toString)
    have 3: "\<forall>t. row ! i = JDate (Some t) \<longrightarrow> f i = JStr (isoText rt t)"
      using b by (auto simp: mapRow_body_date)
    have 4: "nth_opt cts i = Some ColumnTypeEnum_Json \<and> typeof_object (row ! i) \<and> (\<forall>d. row ! i \<noteq> JDate d)
            \<longrightarrow> (\<exists>s. JSON_stringify rt (row ! i) = Inr s \<and> f i = JStr s)"
    proof
      assume h: "nth_opt cts i = Some ColumnTypeEnum_Json \<and> typeof_object (row ! i) \<and> (\<forall>d. row ! i \<noteq> JDate d)"
      with assms(2) i obtain s where s: "JSON_stringify rt (row ! i) = Inr s" by blast
      from h s have "mapRow_body rt (row ! i) (nth_opt cts i) = Inr (JStr s)"
        by (intro mapRow_body_json) auto
      with b s show "\<exists>s. JSON_stringify rt (row ! i) = Inr s \<and> f i = JStr s" by simp
    qed
    have 5: "row ! i \<noteq> JNull \<and> row ! i \<noteq> JUndefined \<and> (\<forall>n. row ! i \<noteq> JBigInt n)
           \<and> (\<forall>d. row ! i \<noteq> JDate d)
           \<and> \<not> (nth_opt cts i = Some ColumnTypeEnum_Json \<and> typeof_object (row ! i))
            \<longrightarrow> f i = row ! i"
    proof
      assume h: "row ! i \<noteq> JNull \<and> row ! i \<noteq> JUndefined \<and> (\<forall>n. row ! i \<noteq> JBigInt n)
           \<and> (\<forall>d. row ! i \<noteq> JDate d)
           \<and> \<not> (nth_opt cts i = Some ColumnTypeEnum_Json \<and> typeof_object (row ! i))"
      then have "mapRow_body rt (row ! i) (nth_opt cts i) = Inr (row ! i)"
        by (intro mapRow_body_other) auto
      with b show "f i = row ! i" by simp
    qed
    from 1 2 3 4 5 show ?thesis by blast
  qed
  have "length (map f [0..<length row]) = length row" by simp
  moreover have "\<forall>i < length row. map f [0..<length row] ! i = f i" by simp
  ultimately show ?thesis using res cell by (intro exI[of _ "map f [0..<length row]"]) simp
qed


lemma sample_dates: "\<forall>i < length sample_row. sample_row ! i \<noteq> JDate None"
  by (simp add: sample_row_def All_less_Suc)

lemma sample_json:
  "\<forall>i < length sample_row.
     nth_opt sample_columnTypes i = Some ColumnTypeEnum_Json \<and> typeof_object (sample_row ! i)
       \<and> (\<forall>d. sample_row ! i \<noteq> JDate d)
     \<longrightarrow> (\<exists>s. JSON_stringify sample_runtime (sample_row ! i) = Inr s)"
  by (simp add: sample_row_def sample_columnTypes_def All_less_Suc nth_opt_def sample_runtime_def
      ColumnTypeEnum_Json_def ColumnTypeEnum_DateTime_def ColumnTypeEnum_Int32_def ColumnTypeEnum_Text_def)

lemma big_text: "int_toString 9007199254740993 = ''9007199254740993''"
  by (simp add: int_toString_def nat_toString.simps digit_char_def)

theorem mapRow_rules_witness:
  "JDate None \<notin> set sample_row
   \<and> JSON_stringify sample_runtime (JObject []) = Inr ''{}''
   \<and> mapRow sample_runtime sample_row sample_columnTypes
       = Inr [JNull, JStr ''9007199254740993'', JStr ''1970-01-01T00:00:00.000Z'', JStr ''{}'',
              JNum 42, JStr ''Alice'']"
proof -
  from mapRow_rules[OF sample_dates sample_json]
  obtain res where r: "mapRow sample_runtime sample_row sample_columnTypes = Inr res"
    and len: "length res = length sample_row"
    and cells: "\<forall>i < length sample_row.
        (sample_row ! i = JNull \<or> sample_row ! i = JUndefined \<longrightarrow> res ! i = JNull)
      \<and> (\<forall>n. sample_row ! i = JBigInt n \<longrightarrow>
            res ! i = JStr (int_toString n) \<and> int_of_decimal (int_toString n) = n)
      \<and> (\<forall>t. sample_row ! i = JDate (Some t) \<longrightarrow> res ! i = JStr (isoText sample_runtime t))
      \<and> (nth_opt sample_columnTypes i = Some ColumnTypeEnum_Json \<and> typeof_object (sample_row ! i)
           \<and> (\<forall>d. sample_row ! i \<noteq> JDate d)
            \<longrightarrow> (\<exists>s. JSON_stringify sample_runtime (sample_row ! i) = Inr s \<and> res ! i = JStr s))
      \<and> (sample_row ! i \<noteq> JNull \<and> sample_row ! i \<noteq> JUndefined \<and> (\<forall>n. sample_row ! i \<noteq> JBigInt n)
           \<and> (\<forall>d. sample_row ! i \<noteq> JDate d)
           \<and> \<not> (nth_opt sample_columnTypes i = Some ColumnTypeEnum_Json \<and> typeof_object (sample_row ! i))
            \<longrightarrow> res ! i = sample_row ! i)"
    by blast
  from cells have c: "res ! 0 = JNull" "res ! Suc 0 = JStr ''9007199254740993''"
    "res ! Suc (Suc 0) = JStr ''1970-01-01T00:00:00.000Z''" "res ! Suc (Suc (Suc 0)) = JStr ''{}''"
    "res ! Suc (Suc (Suc (Suc 0))) = JNum 42" "res ! Suc (Suc (Suc (Suc (Suc 0)))) = JStr ''Alice''"
    by (simp_all add: sample_row_def sample_columnTypes_def All_less_Suc nth_opt_def sample_runtime_def
      ColumnTypeEnum_Json_def ColumnTypeEnum_DateTime_def ColumnTypeEnum_Int32_def ColumnTypeEnum_Text_def
      big_text)
  from len have l: "length res = Suc (Suc (Suc (Suc (Suc (Suc 0)))))" by (simp add: sample_row_def)
  have "res = [JNull, JStr ''9007199254740993'', JStr ''1970-01-01T00:00:00.000Z'', JStr ''{}'',
              JNum 42, JStr ''Alice'']"
    by (rule nth_equalityI) (auto simp: l c less_Suc_eq)
  moreover have "JDate None \<notin> set sample_row" by (simp add: sample_row_def)
  moreover have "JSON_stringify sample_runtime (JObject []) = Inr ''{}''"
    by (simp add: sample_runtime_def)
  ultimately show ?thesis using r by blast
qed

text \<open>
  The claim as stated fails on an Invalid Date, which a native driver can return for a
  date it cannot represent: \<open>toISOString\<close> throws a \<open>RangeError\<close>, so \<open>mapRow\<close> returns no row
  at all; the date is neither mapped to text nor passed through. Likewise an object
  holding a bigint, in a JSON-typed column, makes \<open>JSON.stringify\<close> throw a \<open>TypeError\<close>.
\<close>

theorem mapRow_invalid_date_counterexample:
  "mapRow sample_runtime [JNum 1, JDate None] [ColumnTypeEnum_Int32, ColumnTypeEnum_DateTime]
     = Inl (IsError \<lparr>name = ''RangeError'', message = ''Invalid time value'', code = None, errno = None\<rparr>)
   \<and> \<not> (\<exists>res. mapRow sample_runtime [JNum 1, JDate None] [ColumnTypeEnum_Int32, ColumnTypeEnum_DateTime]
            = Inr res)
   \<and> mapRow sample_runtime [JObject [(''n'', JBigInt 1)]] [ColumnTypeEnum_Json] = Inl (IsError type_error)"
  by (simp add: mapRow_def mapRow_loop.simps mapRow_body_def nth_opt_def Date_toISOString_def
      sample_runtime_def)

section \<open>Properties of dispose\<close>

lemma dispose_Inr:
  assumes "dispose drv a = (Inr (), a')"
  shows "a' = a\<lparr>client := client a @ [Close]\<rparr>"
  using assms by (auto simp: dispose_def client_close_def split: sum.splits)

lemma executeRaw_sent:
  assumes "mapArgs rt sq query = Inr mapped"
  shows "executeRaw rt sq drv query a
          = (case drv (client a) (Query (sql query) (Some mapped)) of
               Inl e \<Rightarrow> Inl (DriverAdapterError (convertDriverError e))
             | Inr r \<Rightarrow> Inr (case affectedRows r of None \<Rightarrow> 0 | Some k \<Rightarrow> k),
             a\<lparr>client := client a @ [Query (sql query) (Some mapped)]\<rparr>)"
  using assms by (auto simp: executeRaw_def client_query_def onError_def split: sum.splits)

lemma queryRaw_sent_outcome:
  assumes "mapArgs rt sq query = Inr mapped"
  shows "queryRaw rt sq drv query a
          = (case drv (client a) (Query (sql query) (Some mapped)) of
               Inl e \<Rightarrow> Inl (DriverAdapterError (convertDriverError e))
             | Inr r \<Rightarrow>
                 (case mapRows rt (resultColumnTypes r) (resultRows r) of
                    Inl e \<Rightarrow> Inl (DriverAdapterError (convertDriverError e))
                  | Inr rs \<Rightarrow> Inr \<lparr>columnNames = resultColumnNames r,
                                   columnTypes = resultColumnTypes r, rows = rs\<rparr>),
             a\<lparr>client := client a @ [Query (sql query) (Some mapped)]\<rparr>)"
  using assms by (auto simp: queryRaw_def client_query_def onError_def split: sum.splits)

text \<open>
  Claim C5, as the code has it. \<open>dispose()\<close> only calls \<open>close()\<close> on the native client:
  the adapter keeps no record of having been disposed, and its depth counter is unchanged.
  After a \<open>dispose()\<close> that resolved, \<open>executeRaw\<close> and \<open>queryRaw\<close>, whenever the arguments
  map, and \<open>startTransaction\<close>, with an absent or allowed isolation level, still send their
  statement to the native client, as the only call they make, and go on as on an adapter
  that was never disposed. When the native driver throws on that call, each of them
  throws the \<open>DriverAdapterError\<close> of the mapped value, \<open>startTransaction\<close> with the depth
  counter restored. When the native driver answers, \<open>executeRaw\<close> returns the affected-row
  count of the answer, or 0 when it has none; \<open>queryRaw\<close> returns the column names and
  types of the answer with its rows mapped by \<open>mapRow\<close>, or throws the \<open>DriverAdapterError\<close>
  of what the row mapping throws; \<open>startTransaction\<close> returns a transaction and leaves
  the depth counter one higher.
\<close>

theorem dispose_keeps_adapter_usable:
  assumes "dispose drv a = (Inr (), a')"
  shows "a' = a\<lparr>client := client a @ [Close]\<rparr>
   \<and> transactionDepth a' = transactionDepth a
   \<and> (mapArgs rt sq query = Inr mapped \<longrightarrow>
        executeRaw rt sq drv query a'
          = (case drv (client a') (Query (sql query) (Some mapped)) of
               Inl e \<Rightarrow> Inl (DriverAdapterError (convertDriverError e))
             | Inr r \<Rightarrow> Inr (case affectedRows r of None \<Rightarrow> 0 | Some k \<Rightarrow> k),
             a'\<lparr>client := client a' @ [Query (sql query) (Some mapped)]\<rparr>)
        \<and> queryRaw rt sq drv query a'
          = (case drv (client a') (Query (sql query) (Some mapped)) of
               Inl e \<Rightarrow> Inl (DriverAdapterError (convertDriverError e))
             | Inr r \<Rightarrow>
                 (case mapRows rt (resultColumnTypes r) (resultRows r) of
                    Inl e \<Rightarrow> Inl (DriverAdapterError (convertDriverError e))
                  | Inr rs \<Rightarrow> Inr \<lparr>columnNames = resultColumnNames r,
                                   columnTypes = resultColumnTypes r, rows = rs\<rparr>),
             a'\<lparr>client := client a' @ [Query (sql query) (Some mapped)]\<rparr>))
   \<and> ((case lvl of None \<Rightarrow> True | Some l \<Rightarrow> l \<in> set validLevels) \<longrightarrow>
        startTransaction drv lvl a'
          = (case drv (client a') (Query (startSql lvl (transactionDepth a + 1)) None) of
               Inl e \<Rightarrow>
                 (Inl (DriverAdapterError (convertDriverError e)),
                  a'\<lparr>client := client a' @ [Query (startSql lvl (transactionDepth a + 1)) None]\<rparr>)
             | Inr r \<Rightarrow>
                 (Inr \<lparr>options = \<lparr>usePhantomQuery = False\<rparr>,
                       release = (\<lambda>s. s\<lparr>transactionDepth := transactionDepth s - 1\<rparr>)\<rparr>,
                  a'\<lparr>client := client a' @ [Query (startSql lvl (transactionDepth a + 1)) None],
                     transactionDepth := transactionDepth a + 1\<rparr>)))"
proof -
  note d = dispose_Inr[OF assms]
  have depth: "transactionDepth a' = transactionDepth a" by (simp add: d)
  have e: "mapArgs rt sq query = Inr mapped \<Longrightarrow>
        executeRaw rt sq drv query a'
          = (case drv (client a') (Query (sql query) (Some mapped)) of
               Inl e \<Rightarrow> Inl (DriverAdapterError (convertDriverError e))
             | Inr r \<Rightarrow> Inr (case affectedRows r of None \<Rightarrow> 0 | Some k \<Rightarrow> k),
             a'\<lparr>client := client a' @ [Query (sql query) (Some mapped)]\<rparr>)"
    by (rule executeRaw_sent)
  have q: "mapArgs rt sq query = Inr mapped \<Longrightarrow>
        queryRaw rt sq drv query a'
          = (case drv (client a') (Query (sql query) (Some mapped)) of
               Inl e \<Rightarrow> Inl (DriverAdapterError (convertDriverError e))
             | Inr r \<Rightarrow>
                 (case mapRows rt (resultColumnTypes r) (resultRows r) of
                    Inl e \<Rightarrow> Inl (DriverAdapterError (convertDriverError e))
                  | Inr rs \<Rightarrow> Inr \<lparr>columnNames = resultColumnNames r,
                                   columnTypes = resultColumnTypes r, rows = rs\<rparr>),
             a'\<lparr>client := client a' @ [Query (sql query) (Some mapped)]\<rparr>)"
    by (rule queryRaw_sent_outcome)
  have s: "(case lvl of None \<Rightarrow> True | Some l \<Rightarrow> l \<in> set validLevels) \<Longrightarrow>
        startTransaction drv lvl a'
          = (case drv (client a') (Query (startSql lvl (transactionDepth a + 1)) None) of
               Inl e \<Rightarrow>
                 (Inl (DriverAdapterError (convertDriverError e)),
                  a'\<lparr>client := client a' @ [Query (startSql lvl (transactionDepth a + 1)) None]\<rparr>)
             | Inr r \<Rightarrow>
                 (Inr \<lparr>options = \<lparr>usePhantomQuery = False\<rparr>,
                       release = (\<lambda>s. s\<lparr>transactionDepth := transactionDepth s - 1\<rparr>)\<rparr>,
                  a'\<lparr>client := client a' @ [Query (startSql lvl (transactionDepth a + 1)) None],
                     transactionDepth := transactionDepth a + 1\<rparr>))"
    using startTransaction_sent[of lvl drv a'] by (simp only: depth)
  from d depth e q s show ?thesis by blast
qed

lemma dispose_closable: "dispose (closable_driver :: int driver) new_MyAdapter = (Inr (), disposed)"
  by (simp add: dispose_def client_close_def closable_driver_def new_MyAdapter_def disposed_def)

lemma no_args: "mapArgs sample_runtime False delete_users = Inr []"
  by (simp add: mapArgs_def delete_users_def)

theorem dispose_keeps_adapter_usable_witness:
  "dispose (closable_driver :: int driver) new_MyAdapter = (Inr (), disposed)
   \<and> mapArgs sample_runtime False delete_users = Inr []
   \<and> (case None :: string option of None \<Rightarrow> True | Some l \<Rightarrow> l \<in> set validLevels)
   \<and> transactionDepth (disposed :: int MyAdapter) = 0
   \<and> executeRaw sample_runtime False closable_driver delete_users disposed
       = (Inl (DriverAdapterError (GenericJs 0)),
          \<lparr>client = [Close, Query ''DELETE FROM users'' (Some [])], transactionDepth = 0\<rparr>)
   \<and> queryRaw sample_runtime False closable_driver delete_users disposed
       = (Inl (DriverAdapterError (GenericJs 0)),
          \<lparr>client = [Close, Query ''DELETE FROM users'' (Some [])], transactionDepth = 0\<rparr>)
   \<and> startTransaction (closable_driver :: int driver) None disposed
       = (Inl (DriverAdapterError (GenericJs 0)),
          \<lparr>client = [Close, Query ''BEGIN'' None], transactionDepth = 0\<rparr>)"
proof -
  note t = dispose_keeps_adapter_usable[OF dispose_closable,
      where rt = sample_runtime and sq = False and query = delete_users
        and mapped = "[]" and lvl = None]
  have v: "case None :: string option of None \<Rightarrow> True | Some l \<Rightarrow> l \<in> set validLevels" by simp
  have s: "startSql None (transactionDepth (new_MyAdapter :: int MyAdapter) + 1) = ''BEGIN''"
    by (simp add: startSql_def beginSql_def new_MyAdapter_def)
  have c: "client (disposed :: int MyAdapter) = [Close]" by (simp add: disposed_def)
  have q: "sql (delete_users :: int SqlQuery) = ''DELETE FROM users''" by (simp add: delete_users_def)
  have r: "(closable_driver :: int driver) [Close] (Query ''DELETE FROM users'' (Some []))
           = Inl (IsError connection_closed)"
    by (simp add: closable_driver_def)
  have b: "(closable_driver :: int driver) [Close] (Query ''BEGIN'' None)
           = Inl (IsError connection_closed)"
    by (simp add: closable_driver_def)
  have g: "convertDriverError (IsError connection_closed :: int thrown) = GenericJs 0"
    by (simp add: connection_closed_def)
  have u: "(disposed :: int MyAdapter)\<lparr>client := [Close] @ [Query ''DELETE FROM users'' (Some [])]\<rparr>
           = \<lparr>client = [Close, Query ''DELETE FROM users'' (Some [])], transactionDepth = 0\<rparr>"
    by (simp add: disposed_def)
  have u': "(disposed :: int MyAdapter)\<lparr>client := [Close] @ [Query ''BEGIN'' None]\<rparr>
           = \<lparr>client = [Close, Query ''BEGIN'' None], transactionDepth = 0\<rparr>"
    by (simp add: disposed_def)
  note t2 = t[THEN conjunct2, THEN conjunct1]
  note t3 = t[THEN conjunct2, THEN conjunct2, THEN conjunct1, THEN mp, OF no_args]
  note t4 = t[THEN conjunct2, THEN conjunct2, THEN conjunct2, THEN mp, OF v]
  from t2 have 1: "transactionDepth (disposed :: int MyAdapter) = 0"
    by (simp add: new_MyAdapter_def)
  from t3[THEN conjunct1]
  have 2: "executeRaw sample_runtime False closable_driver delete_users disposed
       = (Inl (DriverAdapterError (GenericJs 0)),
          \<lparr>client = [Close, Query ''DELETE FROM users'' (Some [])], transactionDepth = 0\<rparr>)"
    by (simp only: c q r g u sum.case)
  from t3[THEN conjunct2]
  have 3: "queryRaw sample_runtime False closable_driver delete_users disposed
       = (Inl (DriverAdapterError (GenericJs 0)),
          \<lparr>client = [Close, Query ''DELETE FROM users'' (Some [])], transactionDepth = 0\<rparr>)"
    by (simp only: c q r g u sum.case)
  from t4
  have 4: "startTransaction (closable_driver :: int driver) None disposed
       = (Inl (DriverAdapterError (GenericJs 0)),
          \<lparr>client = [Close, Query ''BEGIN'' None], transactionDepth = 0\<rparr>)"
    by (simp only: c s b g u' sum.case)
  from dispose_closable no_args v 1 2 3 4 show ?thesis by blast
qed

text \<open>
  The claim as stated fails. After \<open>dispose()\<close>, \<open>executeRaw\<close> hands its statement to the
  closed native client; and with a client that still answers after \<open>close()\<close>, \<open>executeRaw\<close>
  and \<open>startTransaction\<close> succeed.
\<close>

theorem dispose_counterexample:
  "dispose (closable_driver :: int driver) new_MyAdapter = (Inr (), disposed)
   \<and> client (snd (executeRaw sample_runtime False closable_driver delete_users disposed))
       = [Close, Query ''DELETE FROM users'' (Some [])]
   \<and> dispose (accepting_driver :: int driver) new_MyAdapter = (Inr (), disposed)
   \<and> fst (executeRaw sample_runtime False accepting_driver delete_users disposed) = Inr 0
   \<and> startTransaction (accepting_driver :: int driver) None disposed
       = (Inr decrementing, \<lparr>client = [Close, Query ''BEGIN'' None], transactionDepth = 1\<rparr>)"
  by (simp add: dispose_def client_close_def closable_driver_def accepting_driver_def new_MyAdapter_def
      disposed_def executeRaw_def mapArgs_def delete_users_def client_query_def
      empty_result_def startTransaction_def startSql_def beginSql_def decrementing_def onError_def)

end
